theory Spec2Isabelle
  imports Main "HOL-Library.Word" "HOL-Library.Char_ord" "HOL-Library.List_Lexorder"
begin

unbundle bit_operations_syntax

section \<open>Machine integers, strings and decimal formatting\<close>

text \<open>
  Go's \<open>int64\<close> and \<open>uint64\<close> are 64-bit words. A signed value is read with
  \<open>sint\<close>, an unsigned one with \<open>unat\<close> or \<open>uint\<close>. Go strings are byte sequences,
  compared bytewise: \<open>string\<close> with the lexicographic order of
  \<open>List_Lexorder\<close> over the byte order of \<open>Char_ord\<close>.
\<close>

type_synonym int64 = "64 word"
type_synonym uint64 = "64 word"

text \<open>The conversion \<open>uint64(x)\<close> of an \<open>int64\<close>: the value modulo \<open>2 ^ 64\<close>.\<close>

definition uint64_of_int64 :: "int64 \<Rightarrow> uint64" where
  "uint64_of_int64 x = word_of_int (sint x)"

text \<open>The byte \<open>'0' + n\<close> of a decimal digit.\<close>

definition digit_char :: "nat \<Rightarrow> char" where
  "digit_char n = char_of (of_char CHR ''0'' + n)"

text \<open>
  The verb \<open>%d\<close> of package \<open>fmt\<close> on an unsigned integer: the digits are written
  from the end of a buffer, least significant first, while the value is at least ten;
  the leading digit is written last.
\<close>

function fmtInteger :: "uint64 \<Rightarrow> string \<Rightarrow> string" where
  "fmtInteger u buf =
     (if 10 \<le> u
      then (let next = u div 10 in fmtInteger next (digit_char (unat (u - next * 10)) # buf))
      else digit_char (unat u) # buf)"
  by pat_completeness auto
termination
proof (relation "measure (\<lambda>(u, buf). unat u)")
  show "wf (measure (\<lambda>(u :: uint64, buf :: string). unat u))"
    by simp
next
  fix u :: uint64 and buf :: string and x :: uint64
  assume "10 \<le> u" and "x = u div 10"
  then have "unat (u div 10) < unat u"
    by (simp add: unat_div word_le_nat_alt)
  with \<open>x = u div 10\<close>
  show "((x, digit_char (unat (u - x * 10)) # buf), (u, buf))
          \<in> measure (\<lambda>(u, buf). unat u)"
    by simp
qed

declare fmtInteger.simps [simp del]

definition fmt_d_uint64 :: "uint64 \<Rightarrow> string" where
  "fmt_d_uint64 u = fmtInteger u []"

text \<open>
  The verb \<open>%d\<close> on a signed integer: the sign, then the digits of the magnitude.
\<close>

definition fmt_d_int64 :: "int64 \<Rightarrow> string" where
  "fmt_d_int64 x = (if sint x < 0 then ''-'' @ fmtInteger (- x) [] else fmtInteger x [])"

section \<open>Library values and the outside world\<close>

text \<open>
  A \<open>time.Time\<close> is an instant with nanosecond precision: here the number of
  nanoseconds since the Unix epoch (its location and monotonic reading play no role in
  these programs). \<open>UnixMilli\<close> is Go's \<open>sec * 1e3 + nsec / 1e6\<close> with
  \<open>0 \<le> nsec\<close>, the instant divided by a million and rounded down, as an
  \<open>int64\<close>; \<open>UnixNano\<close> is the instant as an \<open>int64\<close>. Both wrap around
  outside the range of \<open>int64\<close>, where Go leaves the result undefined.
\<close>

type_synonym Time = int

definition UnixMilli :: "Time \<Rightarrow> int64" where
  "UnixMilli t = word_of_int (t div 1000000)"

definition UnixNano :: "Time \<Rightarrow> int64" where
  "UnixNano t = word_of_int t"

text \<open>
  A \<open>float64\<close> is carried as its IEEE 754 bit pattern; the programs do no arithmetic
  on it, and its formatting is a parameter of the world below.
\<close>

type_synonym float64 = "64 word"

definition float64_27_35 :: float64 where
  "float64_27_35 = 0x403B59999999999A"

record NullFloat64 =
  Float64 :: float64
  Valid :: bool

record EventRow =
  EventID :: string
  DeviceID :: string
  Timestamp :: Time
  Temperature :: NullFloat64

record StructSaver =
  Struct :: EventRow
  InsertID :: string

text \<open>One \<open>mut.Set(family, column, ts, value)\<close> of a Bigtable mutation.\<close>

record SetCell =
  SetFamily :: string
  SetColumn :: string
  SetTimestamp :: int64
  SetValue :: string

record ReadItem =
  Column :: string
  ItemTimestamp :: int64
  Value :: string

record Config =
  ProjectID :: string
  InstanceID :: string
  TableID :: string
  ColumnFamily :: string

text \<open>
  The calls that leave the process, with their arguments, and what a run leaves behind:
  a trace of events in the order they happen. An error value is its message.
\<close>

datatype call =
    BigqueryNewClient string
  | InserterPut string string "StructSaver list"
  | QueryRead string
  | IteratorNext
  | BigtableNewClient string string
  | TableApply string string "SetCell list"
  | TableReadRow string string
  | TableReadRows string string nat

datatype reply = Ok | Done | Failed string

datatype event =
    LoadDotenv "string option"
  | ExternalCall call reply
  | ClientClose
  | Stdout string
  | Logged string

text \<open>
  A function that may call \<open>log.Fatalf\<close> either ends the process with a status
  (deferred calls do not run) or returns.
\<close>

datatype 'a outcome = Exit int | Return 'a

text \<open>
  The world a run meets: what each library call answers. \<open>os_Getenv\<close> is the process
  environment as the program reads it after \<open>godotenv.Load\<close>, the empty string for
  an unset variable. \<open>bigquery_NewClient\<close> takes the number of clients the run built
  before, so that its two calls may answer differently. A query's result is an error or
  the rows its iterator yields, ended by \<open>iterator.Done\<close> (\<open>None\<close>) or by an error.
  \<open>table_ReadRow\<close> gives the families of the row in the order the program's
  \<open>range\<close> visits them; \<open>table_ReadRows\<close> gives the keys of the rows handed to the
  callback, then the call's error.
\<close>

record world =
  godotenv_Load :: "string option"
  os_Getenv :: "string \<Rightarrow> string"
  time_Now :: Time
  Sprintf_2f :: "float64 \<Rightarrow> string"
  Format_RFC3339 :: "Time \<Rightarrow> string"
  bigquery_NewClient :: "nat \<Rightarrow> string \<Rightarrow> string option"
  inserter_Put :: "string \<Rightarrow> string \<Rightarrow> StructSaver list \<Rightarrow> string option"
  query_Read :: "string \<Rightarrow> string + (EventRow list \<times> string option)"
  bigtable_NewClient :: "string \<Rightarrow> string \<Rightarrow> string option"
  bigtable_Now :: "nat \<Rightarrow> int64"
  table_Apply :: "string \<Rightarrow> string \<Rightarrow> SetCell list \<Rightarrow> string option"
  table_ReadRow :: "string \<Rightarrow> string \<Rightarrow> string + (string \<times> ReadItem list) list"
  table_ReadRows :: "string \<Rightarrow> string \<Rightarrow> string list \<times> string option"

section \<open>The wide-column example\<close>

text \<open>
  Every function of the two programs returns, beside its result, the events it adds to
  the trace of the run, in the order they happen.

  \<open>rowKey\<close> of \<open>big_table.go\<close>:
  \<open>reversed := ^uint64(uint64(t.UnixMilli()))\<close>, then
  \<open>fmt.Sprintf("%s#%d", deviceID, reversed)\<close>.
\<close>

definition rowKey :: "string \<Rightarrow> Time \<Rightarrow> string" where
  "rowKey deviceID t =
     (let reversed = NOT (uint64_of_int64 (UnixMilli t))
      in deviceID @ ''#'' @ fmt_d_uint64 reversed)"

definition loadConfig :: "world \<Rightarrow> event list \<times> Config outcome" where
  "loadConfig w =
     (case godotenv_Load w of
        Some err \<Rightarrow>
          ([LoadDotenv (Some err), Logged (''Error loading .env file: '' @ err)], Exit 1)
      | None \<Rightarrow>
          ([LoadDotenv None],
           Return \<lparr>ProjectID = os_Getenv w ''PROJECT_ID'',
                   InstanceID = os_Getenv w ''INSTANCE_ID'',
                   TableID = os_Getenv w ''TABLE_ID'',
                   ColumnFamily = os_Getenv w ''COLUMN_FAMILY''\<rparr>))"

text \<open>The client handle carries no data: a successful construction returns \<open>()\<close>.\<close>

definition createBigtableClient :: "world \<Rightarrow> Config \<Rightarrow> event list \<times> unit outcome" where
  "createBigtableClient w cfg =
     (case bigtable_NewClient w (ProjectID cfg) (InstanceID cfg) of
        Some err \<Rightarrow>
          ([ExternalCall (BigtableNewClient (ProjectID cfg) (InstanceID cfg)) (Failed err),
            Logged (''Failed to create Bigtable client: '' @ err)], Exit 1)
      | None \<Rightarrow>
          ([ExternalCall (BigtableNewClient (ProjectID cfg) (InstanceID cfg)) Ok], Return ()))"

text \<open>
  A \<open>*bigtable.Table\<close> is the identifier it was opened with. \<open>writeRow\<close> reads the
  clock once for the key and \<open>bigtable.Now()\<close> twice for the two cells.
\<close>

definition writeRow :: "world \<Rightarrow> string \<Rightarrow> Config \<Rightarrow> string \<Rightarrow> event list \<times> string outcome" where
  "writeRow w tbl cfg deviceID =
     (let key = rowKey deviceID (time_Now w);
          mut = [\<lparr>SetFamily = ColumnFamily cfg, SetColumn = ''temp_c'',
                   SetTimestamp = bigtable_Now w 0, SetValue = ''27.4''\<rparr>,
                 \<lparr>SetFamily = ColumnFamily cfg, SetColumn = ''hum_pct'',
                   SetTimestamp = bigtable_Now w 1, SetValue = ''61''\<rparr>]
      in case table_Apply w tbl key mut of
           Some err \<Rightarrow>
             ([ExternalCall (TableApply tbl key mut) (Failed err),
               Logged (''Failed to write row: '' @ err)], Exit 1)
         | None \<Rightarrow>
             ([ExternalCall (TableApply tbl key mut) Ok,
               Stdout (''Wrote row: '' @ key @ ''\<newline>'')], Return key))"

text \<open>
  The loops of \<open>readRow\<close> over the families of the row and the items of a family. A
  \<open>bigtable.Timestamp\<close> is an \<open>int64\<close> and prints as one.
\<close>

definition item_line :: "ReadItem \<Rightarrow> string" where
  "item_line item =
     ''  '' @ Column item @ '' @'' @ fmt_d_int64 (ItemTimestamp item)
     @ '' = '' @ Value item @ ''\<newline>''"

fun print_items :: "ReadItem list \<Rightarrow> event list" where
  "print_items [] = []"
| "print_items (item # items) = Stdout (item_line item) # print_items items"

fun print_families :: "(string \<times> ReadItem list) list \<Rightarrow> event list" where
  "print_families [] = []"
| "print_families ((fam, items) # r) =
     Stdout (''Family: '' @ fam @ ''\<newline>'') # print_items items @ print_families r"

definition readRow :: "world \<Rightarrow> string \<Rightarrow> string \<Rightarrow> event list \<times> unit outcome" where
  "readRow w tbl key =
     (case table_ReadRow w tbl key of
        Inl err \<Rightarrow>
          ([ExternalCall (TableReadRow tbl key) (Failed err),
            Logged (''Failed to read row: '' @ err)], Exit 1)
      | Inr r \<Rightarrow>
          ([ExternalCall (TableReadRow tbl key) Ok,
            Stdout (''Reading row: '' @ key @ ''\<newline>'')] @ print_families r,
           Return ()))"

text \<open>
  \<open>scanRows\<close>: the callback prints the key of every row it is handed and always asks
  for the next one; the call's event stands where the call starts.
\<close>

definition scanRows :: "world \<Rightarrow> string \<Rightarrow> string \<Rightarrow> event list \<times> unit outcome" where
  "scanRows w tbl prefix =
     (let (keys, err) = table_ReadRows w tbl prefix;
          printed = map (\<lambda>k. Stdout (''Row: '' @ k @ ''\<newline>'')) keys
      in case err of
           Some e \<Rightarrow>
             (Stdout (''Scanning rows with prefix: '' @ prefix @ ''\<newline>'')
                # ExternalCall (TableReadRows tbl prefix 1) (Failed e) # printed
                @ [Logged (''Failed to scan rows: '' @ e)], Exit 1)
         | None \<Rightarrow>
             (Stdout (''Scanning rows with prefix: '' @ prefix @ ''\<newline>'')
                # ExternalCall (TableReadRows tbl prefix 1) Ok # printed, Return ()))"

text \<open>
  \<open>main\<close> of \<open>big_table.go\<close>: the trace of the run and the exit status. The deferred
  \<open>client.Close()\<close> runs only when \<open>main\<close> returns. The local variable that
  shadows \<open>rowKey\<close> in the source is \<open>key\<close> here.
\<close>

definition main_bigtable :: "world \<Rightarrow> event list \<times> int" where
  "main_bigtable w =
     (case loadConfig w of
        (es0, Exit c) \<Rightarrow> (es0, c)
      | (es0, Return cfg) \<Rightarrow>
     (case createBigtableClient w cfg of
        (es1, Exit c) \<Rightarrow> (es0 @ es1, c)
      | (es1, Return client) \<Rightarrow>
     (let tbl = TableID cfg in
      case writeRow w tbl cfg ''sensor-42'' of
        (es2, Exit c) \<Rightarrow> (es0 @ es1 @ es2, c)
      | (es2, Return key) \<Rightarrow>
     (case readRow w tbl key of
        (es3, Exit c) \<Rightarrow> (es0 @ es1 @ es2 @ es3, c)
      | (es3, Return u) \<Rightarrow>
     (case scanRows w tbl ''sensor-42#'' of
        (es4, Exit c) \<Rightarrow> (es0 @ es1 @ es2 @ es3 @ es4, c)
      | (es4, Return u) \<Rightarrow> (es0 @ es1 @ es2 @ es3 @ es4 @ [ClientClose], 0))))))"

section \<open>The warehouse example\<close>

text \<open>
  The two strings \<open>queryEventsTable\<close> builds with \<open>fmt.Sprintf\<close>. The raw literal of
  the query starts every line with a line break and two tabs.
\<close>

definition tableRef :: "string \<Rightarrow> string \<Rightarrow> string \<Rightarrow> string" where
  "tableRef projectID datasetID tableID =
     ''`'' @ projectID @ ''.'' @ datasetID @ ''.'' @ tableID @ ''`''"

definition queryStr :: "string \<Rightarrow> string \<Rightarrow> string \<Rightarrow> string" where
  "queryStr projectID datasetID tableID =
     [CHR 0x0A, CHR 0x09, CHR 0x09] @ ''SELECT event_id, device_id, timestamp, temperature''
     @ [CHR 0x0A, CHR 0x09, CHR 0x09] @ ''FROM '' @ tableRef projectID datasetID tableID
     @ [CHR 0x0A, CHR 0x09, CHR 0x09] @ ''ORDER BY timestamp DESC''
     @ [CHR 0x0A, CHR 0x09, CHR 0x09] @ ''LIMIT 10''"

text \<open>
  The loop over the iterator: every \<open>it.Next\<close> yields a row, which is printed, or
  \<open>iterator.Done\<close>, which ends the loop, or an error, which is returned wrapped.
  \<open>row_line\<close> is the line printed for one row; the degree sign of the temperature's
  format is two bytes in UTF-8.
\<close>

definition row_line :: "world \<Rightarrow> EventRow \<Rightarrow> string" where
  "row_line w row =
     (let tempStr =
            (if Valid (Temperature row)
             then Sprintf_2f w (Float64 (Temperature row)) @ [CHR 0xC2, CHR 0xB0] @ ''C''
             else ''NULL'')
      in ''Event: '' @ EventID row @ '', Device: '' @ DeviceID row
         @ '', Time: '' @ Format_RFC3339 w (Timestamp row)
         @ '', Temp: '' @ tempStr @ ''\<newline>'')"

fun iterate :: "world \<Rightarrow> EventRow list \<Rightarrow> string option \<Rightarrow> event list \<times> string option" where
  "iterate w [] None = ([ExternalCall IteratorNext Done], None)"
| "iterate w [] (Some err) =
     ([ExternalCall IteratorNext (Failed err)], Some (''iterator.Next: '' @ err))"
| "iterate w (row # rows) fin =
     (let (es, err) = iterate w rows fin
      in (ExternalCall IteratorNext Ok # Stdout (row_line w row) # es, err))"

text \<open>
  \<open>queryEventsTable\<close> builds a client of its own; \<open>n\<close> is the number of clients the
  run built before. The deferred \<open>client.Close()\<close> runs on every return after the
  client was built.
\<close>

definition queryEventsTable :: "world \<Rightarrow> nat \<Rightarrow> string \<Rightarrow> string \<Rightarrow> string \<Rightarrow> event list \<times> string option" where
  "queryEventsTable w n projectID datasetID tableID =
     (case bigquery_NewClient w n projectID of
        Some err \<Rightarrow>
          ([ExternalCall (BigqueryNewClient projectID) (Failed err)],
           Some (''bigquery.NewClient: '' @ err))
      | None \<Rightarrow>
          (let q = queryStr projectID datasetID tableID
           in case query_Read w q of
                Inl err \<Rightarrow>
                  ([ExternalCall (BigqueryNewClient projectID) Ok,
                    ExternalCall (QueryRead q) (Failed err), ClientClose],
                   Some (''query.Read: '' @ err))
              | Inr (rows, fin) \<Rightarrow>
                  (let (es, err) = iterate w rows fin
                   in ([ExternalCall (BigqueryNewClient projectID) Ok,
                        ExternalCall (QueryRead q) Ok,
                        Stdout (''Query results from ''
                                @ tableRef projectID datasetID tableID @ '':\<newline>'')]
                       @ es @ [ClientClose], err))))"

text \<open>The loop of \<open>insertEvents\<close> that appends one \<open>StructSaver\<close> per row.\<close>

fun append_savers :: "EventRow list \<Rightarrow> StructSaver list \<Rightarrow> StructSaver list" where
  "append_savers [] savers = savers"
| "append_savers (r # rows) savers =
     append_savers rows (savers @ [\<lparr>Struct = r, InsertID = EventID r\<rparr>])"

definition insertEvents :: "world \<Rightarrow> string \<Rightarrow> string \<Rightarrow> EventRow list \<Rightarrow> event list \<times> string option" where
  "insertEvents w datasetID tableID rows =
     (let savers = append_savers rows []
      in case inserter_Put w datasetID tableID savers of
           Some err \<Rightarrow>
             ([Stdout ''Streaming rows into BigQuery...\<newline>'',
               ExternalCall (InserterPut datasetID tableID savers) (Failed err)],
              Some (''inserter.Put: '' @ err))
         | None \<Rightarrow>
             ([Stdout ''Streaming rows into BigQuery...\<newline>'',
               ExternalCall (InserterPut datasetID tableID savers) Ok], None))"

text \<open>
  The first statement of \<open>main\<close>: a configuration file that cannot be loaded is
  logged as a warning.
\<close>

definition load_dotenv_or_warn :: "world \<Rightarrow> event list" where
  "load_dotenv_or_warn w =
     (case godotenv_Load w of
        Some err \<Rightarrow> [LoadDotenv (Some err), Logged ''Warning: Could not load .env file.'']
      | None \<Rightarrow> [LoadDotenv None])"

text \<open>
  The block of \<open>main\<close> under \<open>BIG_QUERY_INSERT_SAMPLE=1\<close>: one sample row, stamped
  with the clock, is inserted; \<open>log.Fatalf\<close> ends the process when that fails.
\<close>

definition insert_sample :: "world \<Rightarrow> string \<Rightarrow> string \<Rightarrow> event list \<times> unit outcome" where
  "insert_sample w datasetID tableID =
     (if os_Getenv w ''BIG_QUERY_INSERT_SAMPLE'' = ''1'' then
        (let now = time_Now w;
             row = \<lparr>EventID = ''evt-'' @ fmt_d_int64 (UnixNano now),
                    DeviceID = ''device-123'',
                    Timestamp = now,
                    Temperature = \<lparr>Float64 = float64_27_35, Valid = True\<rparr>\<rparr>
         in case insertEvents w datasetID tableID [row] of
              (es, Some err) \<Rightarrow> (es @ [Logged (''insertEvents failed: '' @ err)], Exit 1)
            | (es, None) \<Rightarrow> (es @ [Stdout ''Inserted 1 sample row.\<newline>''], Return ()))
      else ([], Return ()))"

text \<open>
  \<open>main\<close> of the warehouse example: the trace of the run and the exit status.
  \<open>log.Fatal\<close> ends the process with status 1; a logged line is its message. The
  client of \<open>main\<close> is the first the run builds, that of \<open>queryEventsTable\<close> the
  second.
\<close>

definition main_bigquery :: "world \<Rightarrow> event list \<times> int" where
  "main_bigquery w =
     (let es0 = load_dotenv_or_warn w;
          projectID = os_Getenv w ''PROJECT_ID'';
          datasetID = os_Getenv w ''BIG_QUERY_DATASET_ID'';
          tableID = os_Getenv w ''BIG_QUERY_TABLE_ID''
      in if projectID = [] \<or> datasetID = [] \<or> tableID = [] then
           (es0 @ [Logged ''Error: Ensure PROJECT_ID, BIG_QUERY_DATASET_ID, and BIG_QUERY_TABLE_ID are set.''], 1)
         else if projectID = ''your-gcp-project-id'' then
           (es0 @ [Logged ''Error: Please update PROJECT_ID in your .env file.''], 1)
         else
           (case bigquery_NewClient w 0 projectID of
              Some err \<Rightarrow>
                (es0 @ [ExternalCall (BigqueryNewClient projectID) (Failed err),
                        Logged (''bigquery.NewClient: '' @ err)], 1)
            | None \<Rightarrow>
           (case insert_sample w datasetID tableID of
              (es1, Exit c) \<Rightarrow>
                (es0 @ [ExternalCall (BigqueryNewClient projectID) Ok] @ es1, c)
            | (es1, Return u) \<Rightarrow>
           (case queryEventsTable w 1 projectID datasetID tableID of
              (es2, Some err) \<Rightarrow>
                (es0 @ [ExternalCall (BigqueryNewClient projectID) Ok] @ es1 @ es2
                   @ [Logged (''Failed to run query: '' @ err)], 1)
            | (es2, None) \<Rightarrow>
                (es0 @ [ExternalCall (BigqueryNewClient projectID) Ok] @ es1 @ es2
                   @ [ClientClose], 0)))))"

section \<open>Notions of the specification\<close>

text \<open>
  Following the spec's words: the decimal numeral of a natural number, most significant
  digit first, with no leading zero.
\<close>

function decimal_numeral :: "nat \<Rightarrow> string" where
  "decimal_numeral n =
     (if n < 10 then [digit_char n]
      else decimal_numeral (n div 10) @ [digit_char (n mod 10)])"
  by pat_completeness auto
termination
  by (relation "measure (\<lambda>n. n)") auto

declare decimal_numeral.simps [simp del]

text \<open>The number a string of decimal digits denotes.\<close>

definition digit_value :: "char \<Rightarrow> nat" where
  "digit_value c = of_char c - of_char CHR ''0''"

definition decimal_value :: "string \<Rightarrow> nat" where
  "decimal_value s = foldl (\<lambda>acc c. 10 * acc + digit_value c) 0 s"

text \<open>The external calls a trace attempted, in order, and whether a call failed.\<close>

fun external_calls :: "event list \<Rightarrow> call list" where
  "external_calls [] = []"
| "external_calls (ExternalCall c r # es) = c # external_calls es"
| "external_calls (e # es) = external_calls es"

fun failed_call :: "event \<Rightarrow> bool" where
  "failed_call (ExternalCall c (Failed err)) = True"
| "failed_call e = False"

text \<open>The row keys a trace handed to \<open>Apply\<close>, in order.\<close>

fun applied_keys :: "event list \<Rightarrow> string list" where
  "applied_keys [] = []"
| "applied_keys (ExternalCall (TableApply tbl key mut) r # es) = key # applied_keys es"
| "applied_keys (e # es) = applied_keys es"

text \<open>A line of standard output that reports one result row of the query.\<close>

fun result_line :: "event \<Rightarrow> bool" where
  "result_line (Stdout s) = (take 7 s = ''Event: '')"
| "result_line e = False"

text \<open>
  A trace stops at its first failed call when no external call follows that call.
\<close>

fun stops_at_failure :: "event list \<Rightarrow> bool" where
  "stops_at_failure [] = True"
| "stops_at_failure (e # es) =
     (if failed_call e then external_calls es = [] else stops_at_failure es)"

text \<open>
  The number of rows the service's iterator yields for a query (none when the query
  fails).
\<close>

definition rows_yielded :: "world \<Rightarrow> string \<Rightarrow> nat" where
  "rows_yielded w q = (case query_Read w q of Inl err \<Rightarrow> 0 | Inr (rows, fin) \<Rightarrow> length rows)"

section \<open>Sample worlds\<close>

text \<open>
  \<open>os.Getenv\<close> over a list of bindings: the empty string for a variable that is not
  set.
\<close>

definition getenv_of :: "(string \<times> string) list \<Rightarrow> string \<Rightarrow> string" where
  "getenv_of bindings k = (case map_of bindings k of None \<Rightarrow> [] | Some v \<Rightarrow> v)"

definition sample_row :: "string \<Rightarrow> EventRow" where
  "sample_row eid =
     \<lparr>EventID = eid, DeviceID = ''device-123'', Timestamp = 1700000000000000000,
      Temperature = \<lparr>Float64 = float64_27_35, Valid = True\<rparr>\<rparr>"

text \<open>A world where the file loads, every variable is set and every call succeeds.\<close>

definition world_ok :: world where
  "world_ok =
     \<lparr>godotenv_Load = None,
      os_Getenv = getenv_of
        [(''PROJECT_ID'', ''proj''), (''BIG_QUERY_DATASET_ID'', ''iot''),
         (''BIG_QUERY_TABLE_ID'', ''events''), (''BIG_QUERY_INSERT_SAMPLE'', ''1''),
         (''INSTANCE_ID'', ''inst''), (''TABLE_ID'', ''readings''),
         (''COLUMN_FAMILY'', ''cf'')],
      time_Now = 1700000000000000000,
      Sprintf_2f = (\<lambda>x. ''27.35''),
      Format_RFC3339 = (\<lambda>t. ''2023-11-14T22:13:20Z''),
      bigquery_NewClient = (\<lambda>n p. None),
      inserter_Put = (\<lambda>d t savers. None),
      query_Read = (\<lambda>q. Inr ([sample_row ''evt-1'', sample_row ''evt-2''], None)),
      bigtable_NewClient = (\<lambda>p i. None),
      bigtable_Now = (\<lambda>n. 1700000000000000),
      table_Apply = (\<lambda>t k m. None),
      table_ReadRow = (\<lambda>t k. Inr [(''cf'',
        [\<lparr>Column = ''cf:temp_c'', ItemTimestamp = 1700000000000000, Value = ''27.4''\<rparr>])]),
      table_ReadRows = (\<lambda>t p. ([''sensor-42#18446742373709551615''], None))\<rparr>"

text \<open>The file loads, but no variable is set.\<close>

definition world_unset :: world where
  "world_unset = world_ok\<lparr>os_Getenv := getenv_of []\<rparr>"

text \<open>The file cannot be loaded and no variable is set.\<close>

definition world_no_file_unset :: world where
  "world_no_file_unset =
     world_ok\<lparr>godotenv_Load := Some ''open .env: no such file or directory'',
              os_Getenv := getenv_of []\<rparr>"

text \<open>The file cannot be loaded; the variables are set in the process environment.\<close>

definition world_no_file :: world where
  "world_no_file = world_ok\<lparr>godotenv_Load := Some ''open .env: no such file or directory''\<rparr>"

text \<open>The insertion and the write fail.\<close>

definition world_writes_fail :: world where
  "world_writes_fail =
     world_ok\<lparr>inserter_Put := (\<lambda>d t savers. Some ''quota exceeded''),
              table_Apply := (\<lambda>t k m. Some ''deadline exceeded'')\<rparr>"


section \<open>Decimal numerals and 64-bit words\<close>

lemma uint64_of_int64_id: "uint64_of_int64 x = x"
  by (simp add: uint64_of_int64_def)

lemma of_char_digit_char: "n < 10 \<Longrightarrow> of_char (digit_char n) = 48 + n"
  by (simp add: digit_char_def)

lemma digit_char_less_iff:
  "a < 10 \<Longrightarrow> b < 10 \<Longrightarrow> digit_char a < digit_char b \<longleftrightarrow> a < b"
  by (simp add: less_char_def of_char_digit_char)

lemma digit_char_inj: "a < 10 \<Longrightarrow> b < 10 \<Longrightarrow> digit_char a = digit_char b \<longleftrightarrow> a = b"
  by (metis add_left_cancel of_char_digit_char)

lemma digit_value_digit_char: "n < 10 \<Longrightarrow> digit_value (digit_char n) = n"
  by (simp add: digit_value_def of_char_digit_char)

lemma unat_sub_next: "unat (u - (u div 10) * 10) = unat u mod 10" for u :: uint64
proof -
  have "u - (u div 10) * 10 = u mod 10"
    by (simp add: minus_div_mult_eq_mod)
  then show ?thesis
    by (simp add: unat_mod)
qed

lemma fmtInteger_eq: "fmtInteger u buf = decimal_numeral (unat u) @ buf"
proof (induction u buf rule: fmtInteger.induct)
  case (1 u buf)
  show ?case
  proof (cases "10 \<le> u")
    case True
    then have ge: "\<not> unat u < 10"
      by (simp add: word_le_nat_alt)
    have "fmtInteger u buf = fmtInteger (u div 10) (digit_char (unat u mod 10) # buf)"
      using True by (subst fmtInteger.simps) (simp add: unat_sub_next Let_def)
    also have "\<dots> = decimal_numeral (unat (u div 10)) @ digit_char (unat u mod 10) # buf"
      using "1.IH" [OF True refl] by (simp add: unat_sub_next)
    also have "\<dots> = decimal_numeral (unat u) @ buf"
      using ge by (subst (2) decimal_numeral.simps) (simp add: unat_div)
    finally show ?thesis .
  next
    case False
    then have "unat u < 10"
      by (simp add: word_le_nat_alt)
    with False show ?thesis
      by (subst fmtInteger.simps, subst decimal_numeral.simps) simp
  qed
qed

lemma decimal_numeral_nonempty: "decimal_numeral n \<noteq> []"
  by (subst decimal_numeral.simps) simp

lemma decimal_value_snoc: "decimal_value (s @ [c]) = 10 * decimal_value s + digit_value c"
  by (simp add: decimal_value_def)

lemma decimal_value_decimal_numeral: "decimal_value (decimal_numeral n) = n"
proof (induction n rule: decimal_numeral.induct)
  case (1 n)
  show ?case
  proof (cases "n < 10")
    case True
    then show ?thesis
      by (subst decimal_numeral.simps) (simp add: decimal_value_def digit_value_digit_char)
  next
    case False
    then have "decimal_value (decimal_numeral n)
        = 10 * decimal_value (decimal_numeral (n div 10)) + digit_value (digit_char (n mod 10))"
      by (subst decimal_numeral.simps) (simp add: decimal_value_snoc)
    also have "\<dots> = 10 * (n div 10) + n mod 10"
      using "1.IH" [OF False] by (simp add: digit_value_digit_char)
    finally show ?thesis by simp
  qed
qed

lemma less_append_same_length:
  fixes xs ys :: "'a :: order list"
  shows "length xs = length ys \<Longrightarrow> xs < ys \<Longrightarrow> xs @ us < ys @ vs"
proof (induction xs ys rule: list_induct2)
  case Nil
  then show ?case by simp
next
  case (Cons x xs y ys)
  then show ?case by auto
qed

lemma less_append_left_iff:
  fixes xs :: "'a :: order list"
  shows "xs @ us < xs @ vs \<longleftrightarrow> us < vs"
  by (induction xs) simp_all

lemma decimal_numeral_less:
  "length (decimal_numeral a) = length (decimal_numeral b) \<Longrightarrow> a < b
     \<Longrightarrow> decimal_numeral a < decimal_numeral b"
proof (induction a arbitrary: b rule: decimal_numeral.induct)
  case (1 a)
  show ?case
  proof (cases "a < 10")
    case True
    then have la: "decimal_numeral a = [digit_char a]"
      by (subst decimal_numeral.simps) simp
    have "b < 10"
    proof (rule ccontr)
      assume "\<not> b < 10"
      then have "decimal_numeral b = decimal_numeral (b div 10) @ [digit_char (b mod 10)]"
        by (subst decimal_numeral.simps) simp
      with "1.prems"(1) la decimal_numeral_nonempty [of "b div 10"] show False
        by simp
    qed
    then have lb: "decimal_numeral b = [digit_char b]"
      by (subst decimal_numeral.simps) simp
    from True \<open>b < 10\<close> "1.prems"(2) show ?thesis
      by (simp add: la lb digit_char_less_iff)
  next
    case False
    then have la: "decimal_numeral a = decimal_numeral (a div 10) @ [digit_char (a mod 10)]"
      by (subst decimal_numeral.simps) simp
    from False "1.prems"(2) have "\<not> b < 10" by simp
    then have lb: "decimal_numeral b = decimal_numeral (b div 10) @ [digit_char (b mod 10)]"
      by (subst decimal_numeral.simps) simp
    from "1.prems"(1) have len: "length (decimal_numeral (a div 10)) = length (decimal_numeral (b div 10))"
      by (simp add: la lb)
    from "1.prems"(2) have "a div 10 \<le> b div 10"
      by (simp add: div_le_mono)
    then consider "a div 10 < b div 10" | "a div 10 = b div 10"
      by (auto simp: le_less)
    then show ?thesis
    proof cases
      case 1
      then have "decimal_numeral (a div 10) < decimal_numeral (b div 10)"
        using "1.IH" [OF False len] by simp
      then show ?thesis
        by (simp add: la lb less_append_same_length len)
    next
      case 2
      with "1.prems"(2) have "a mod 10 < b mod 10"
        by (metis mod_mult_div_eq add_less_cancel_right)
      then show ?thesis
        by (simp add: la lb 2 less_append_left_iff digit_char_less_iff)
    qed
  qed
qed

lemma decimal_numeral_length:
  "10 ^ k \<le> n \<Longrightarrow> n < 10 ^ Suc k \<Longrightarrow> length (decimal_numeral n) = Suc k"
proof (induction k arbitrary: n)
  case 0
  then show ?case by (subst decimal_numeral.simps) simp
next
  case (Suc k)
  define m :: nat where "m = 10 ^ k"
  have "1 \<le> m" by (simp add: m_def)
  from Suc.prems have bounds: "10 * m \<le> n" "n < 10 * (10 * m)"
    by (simp_all add: m_def)
  with \<open>1 \<le> m\<close> have "\<not> n < 10" by linarith
  then have la: "decimal_numeral n = decimal_numeral (n div 10) @ [digit_char (n mod 10)]"
    by (subst decimal_numeral.simps) simp
  from bounds have "m \<le> n div 10"
    by simp
  moreover from bounds have "n div 10 < 10 * m"
    by simp
  ultimately have "10 ^ k \<le> n div 10" "n div 10 < 10 ^ Suc k"
    by (simp_all add: m_def)
  from Suc.IH [OF this] show ?case
    by (simp add: la)
qed

lemma uint_NOT_64: "uint (NOT w) = 2 ^ 64 - 1 - uint w" for w :: uint64
proof -
  have "NOT w = - 1 - w"
    by (simp add: not_eq_complement)
  moreover have "uint (- 1 - w) = uint (- 1 :: uint64) - uint w"
    using uint_sub_lem [of w "- 1"] uint_lt2p [of w] by (simp add: unsigned_minus_1_eq_mask mask_eq_exp_minus_1)
  ultimately show ?thesis
    by (simp add: unsigned_minus_1_eq_mask mask_eq_exp_minus_1)
qed

lemma unat_NOT_64: "unat (NOT w) = 2 ^ 64 - 1 - unat w" for w :: uint64
proof -
  have "unat (NOT w) = nat (uint (NOT w))"
    by simp
  also have "\<dots> = nat (18446744073709551615 - uint w)"
    by (simp add: uint_NOT_64)
  also have "\<dots> = 18446744073709551615 - nat (uint w)"
    by (simp add: nat_diff_distrib')
  finally show ?thesis
    by simp
qed

lemma uint_sint_mod: "uint w = sint w mod 2 ^ 64" for w :: uint64
  by (simp add: uint_sint take_bit_eq_mod)

lemma uint_of_sint:
  "uint w = (if 0 \<le> sint w then sint w else sint w + 2 ^ 64)" for w :: uint64
proof -
  have lo: "- (2 ^ 63) \<le> sint w" and hi: "sint w < 2 ^ 63"
    using sint_ge [of w] sint_lt [of w] by simp_all
  show ?thesis
  proof (cases "0 \<le> sint w")
    case True
    with hi have "sint w mod 2 ^ 64 = sint w"
      by (intro mod_pos_pos_trivial) simp_all
    with True show ?thesis
      by (simp add: uint_sint_mod)
  next
    case False
    have "sint w mod 2 ^ 64 = (sint w + 2 ^ 64) mod 2 ^ 64"
      by simp
    also from False lo have "\<dots> = sint w + 2 ^ 64"
      by (intro mod_pos_pos_trivial) simp_all
    finally show ?thesis
      using False by (simp add: uint_sint_mod)
  qed
qed

lemma same_sign_uint_mono:
  fixes a b :: uint64
  assumes "sint a < sint b" and "0 \<le> sint a \<or> sint b < 0"
  shows "uint a < uint b"
  using assms by (auto simp: uint_of_sint)

lemma UnixMilli_next: "UnixMilli (t + 1000000) = UnixMilli t + 1"
proof -
  have "(t + 1000000) div 1000000 = t div 1000000 + 1"
    by simp
  then show ?thesis
    by (simp add: UnixMilli_def)
qed

lemma unat_succ: "w \<noteq> - 1 \<Longrightarrow> unat (w + 1) = unat w + 1" for w :: uint64
  by (metis Suc_eq_plus1 add.commute add.right_inverse add_left_cancel unatSuc)

section \<open>Row keys\<close>

lemma rowKey_numeral:
  "rowKey d t = d @ ''#'' @ decimal_numeral (unat (NOT (UnixMilli t)))"
  by (simp add: rowKey_def uint64_of_int64_id fmt_d_uint64_def fmtInteger_eq)

lemma decimal_numeral_inj: "decimal_numeral a = decimal_numeral b \<Longrightarrow> a = b"
  by (metis decimal_value_decimal_numeral)

lemma rowKey_less_iff:
  "rowKey d t2 < rowKey d t1 \<longleftrightarrow>
     decimal_numeral (unat (NOT (UnixMilli t2))) < decimal_numeral (unat (NOT (UnixMilli t1)))"
  by (simp add: rowKey_numeral less_append_left_iff)

lemma rowKey_length:
  "length (rowKey d t) = Suc (length d) + length (decimal_numeral (unat (NOT (UnixMilli t))))"
  by (simp add: rowKey_numeral)

text \<open>
  Where the unsigned millisecond value grows and the two keys have the same length, the
  later key is the smaller one.
\<close>

lemma rowKey_reversed:
  assumes "unat (UnixMilli t1) < unat (UnixMilli t2)"
    and "length (rowKey d t1) = length (rowKey d t2)"
  shows "rowKey d t2 < rowKey d t1"
proof -
  have "unat (UnixMilli t2) < 2 ^ 64"
    using unsigned_less [of "UnixMilli t2", where ?'a = nat] by simp
  with assms(1) have "unat (NOT (UnixMilli t2)) < unat (NOT (UnixMilli t1))"
    by (simp add: unat_NOT_64)
  moreover from assms(2)
  have "length (decimal_numeral (unat (NOT (UnixMilli t2))))
      = length (decimal_numeral (unat (NOT (UnixMilli t1))))"
    by (simp add: rowKey_length)
  ultimately show ?thesis
    by (simp add: rowKey_less_iff decimal_numeral_less)
qed

text \<open>
  From 1970 up to the millisecond 8446744073709551615 (some 267 million years on), the
  inverted value has exactly twenty digits, so all keys of one device have one length.
\<close>

lemma rowKey_length_twenty:
  assumes "0 \<le> sint (UnixMilli t)" and "sint (UnixMilli t) \<le> 8446744073709551615"
  shows "length (rowKey d t) = length d + 21"
proof -
  from assms have "uint (UnixMilli t) \<le> 8446744073709551615"
    by (simp add: uint_of_sint)
  then have "nat (uint (UnixMilli t)) \<le> nat 8446744073709551615"
    by (rule nat_mono)
  then have "unat (UnixMilli t) \<le> 8446744073709551615"
    by simp
  moreover have "unat (UnixMilli t) < 2 ^ 64"
    using unsigned_less [of "UnixMilli t", where ?'a = nat] by simp
  ultimately have "10 ^ 19 \<le> unat (NOT (UnixMilli t))" "unat (NOT (UnixMilli t)) < 10 ^ Suc 19"
    by (simp_all add: unat_NOT_64)
  then have "length (decimal_numeral (unat (NOT (UnixMilli t)))) = Suc 19"
    by (rule decimal_numeral_length)
  then show ?thesis
    by (simp add: rowKey_length)
qed

text \<open>
  Timestamps within one millisecond get the same key: the key orders timestamps by
  their millisecond values only.
\<close>

lemma rowKey_same_millisecond:
  "UnixMilli t1 = UnixMilli t2 \<Longrightarrow> rowKey d t1 = rowKey d t2"
  by (simp add: rowKey_def)

lemma rowKey_same_millisecond_example:
  "(1700000000000000000 :: Time) < 1700000000000000001
   \<and> rowKey ''sensor-42'' 1700000000000000000 = rowKey ''sensor-42'' 1700000000000000001"
  by (simp add: rowKey_same_millisecond UnixMilli_def)

text \<open>
  Between 1970 and the millisecond 8446744073709551615 the keys of one device are in
  descending order of their millisecond values, with no condition on widths.
\<close>

lemma rowKey_descending_since_epoch:
  assumes "0 \<le> sint (UnixMilli t1)" and "sint (UnixMilli t1) < sint (UnixMilli t2)"
    and "sint (UnixMilli t2) \<le> 8446744073709551615"
  shows "rowKey d t2 < rowKey d t1"
proof -
  from assms have "length (rowKey d t1) = length d + 21" "length (rowKey d t2) = length d + 21"
    by (simp_all add: rowKey_length_twenty)
  then have len: "length (rowKey d t1) = length (rowKey d t2)"
    by simp
  from assms(1,2) have "uint (UnixMilli t1) < uint (UnixMilli t2)"
    by (intro same_sign_uint_mono) simp_all
  then have "unat (UnixMilli t1) < unat (UnixMilli t2)"
    by (simp add: word_less_nat_alt [symmetric] word_less_def)
  then show ?thesis
    using len by (rule rowKey_reversed)
qed

text \<open>
  Claim C1, as stated: for every device identifier \<open>d\<close> and timestamps \<open>t1 < t2\<close>, the
  key of \<open>(d, t2)\<close> sorts before the key of \<open>(d, t1)\<close>, given fixed-width formatting of
  the inverted value. It fails across the epoch even where both numerals have the same
  width: a timestamp whose millisecond value is negative has a small inverted value, a
  later one whose millisecond value is not negative a large one. Here both numerals have
  nineteen digits and the earlier key sorts first.
\<close>

theorem rowKey_order_counterexample:
  "(- 2000000000000000000000000 :: Time) < 9000000000000000000000000
   \<and> sint (UnixMilli (- 2000000000000000000000000)) = - 2000000000000000000
   \<and> sint (UnixMilli 9000000000000000000000000) = 9000000000000000000
   \<and> length (rowKey ''sensor-42'' (- 2000000000000000000000000))
       = length (rowKey ''sensor-42'' 9000000000000000000000000)
   \<and> rowKey ''sensor-42'' (- 2000000000000000000000000) = ''sensor-42#1999999999999999999''
   \<and> rowKey ''sensor-42'' 9000000000000000000000000 = ''sensor-42#9446744073709551615''
   \<and> \<not> rowKey ''sensor-42'' 9000000000000000000000000
         < rowKey ''sensor-42'' (- 2000000000000000000000000)"
  by code_simp

text \<open>
  Claim C1, amended: for every device identifier \<open>d\<close> and timestamps \<open>t1\<close>, \<open>t2\<close> whose
  signed millisecond values are in order, \<open>t1\<close> before \<open>t2\<close>, and are both non-negative
  or both negative, if the two keys have the same width then the key of \<open>(d, t2)\<close> sorts
  lexicographically before the key of \<open>(d, t1)\<close>.
\<close>

theorem rowKey_descending_same_sign:
  assumes "sint (UnixMilli t1) < sint (UnixMilli t2)"
    and "0 \<le> sint (UnixMilli t1) \<or> sint (UnixMilli t2) < 0"
    and "length (rowKey d t1) = length (rowKey d t2)"
  shows "rowKey d t2 < rowKey d t1"
proof -
  from assms(1,2) have "uint (UnixMilli t1) < uint (UnixMilli t2)"
    by (rule same_sign_uint_mono)
  then have "unat (UnixMilli t1) < unat (UnixMilli t2)"
    by (simp add: word_less_nat_alt [symmetric] word_less_def)
  then show ?thesis
    using assms(3) by (rule rowKey_reversed)
qed

theorem rowKey_descending_same_sign_witness:
  "sint (UnixMilli 1700000000000000000) < sint (UnixMilli 1700000000001000000)
   \<and> 0 \<le> sint (UnixMilli 1700000000000000000)
   \<and> length (rowKey ''sensor-42'' 1700000000000000000)
       = length (rowKey ''sensor-42'' 1700000000001000000)
   \<and> rowKey ''sensor-42'' 1700000000001000000 < rowKey ''sensor-42'' 1700000000000000000"
proof -
  have a: "sint (UnixMilli 1700000000000000000) < sint (UnixMilli 1700000000001000000)"
    by code_simp
  have b: "0 \<le> sint (UnixMilli 1700000000000000000)"
    by code_simp
  have c: "length (rowKey ''sensor-42'' 1700000000000000000)
      = length (rowKey ''sensor-42'' 1700000000001000000)"
    by code_simp
  from rowKey_descending_same_sign [OF a disjI1 [OF b] c] a b c show ?thesis
    by simp
qed

text \<open>
  Claim C2: for every device identifier \<open>d\<close> and timestamp \<open>t\<close>, the row key is \<open>d\<close>,
  the separator \<open>#\<close>, and the decimal numeral of the bitwise complement of the
  millisecond value of \<open>t\<close> read as an unsigned 64-bit integer.
\<close>

theorem rowKey_is_device_hash_complement:
  "rowKey d t = d @ ''#'' @ decimal_numeral (unat (NOT (UnixMilli t)))"
  by (simp add: rowKey_def uint64_of_int64_id fmt_d_uint64_def fmtInteger_eq)

text \<open>
  Claim C3: for every timestamp, negative millisecond values included, the value
  embedded in the row key (the number its numeral after the separator denotes) is
  \<open>2 ^ 64 - 1 - (millis mod 2 ^ 64)\<close>, where \<open>millis\<close> is the signed millisecond value.
\<close>

theorem rowKey_embeds_exact_complement:
  "int (decimal_value (drop (Suc (length d)) (rowKey d t)))
     = 2 ^ 64 - 1 - sint (UnixMilli t) mod 2 ^ 64"
proof -
  have "int (decimal_value (drop (Suc (length d)) (rowKey d t))) = uint (NOT (UnixMilli t))"
    by (simp add: rowKey_numeral decimal_value_decimal_numeral)
  also have "\<dots> = 2 ^ 64 - 1 - uint (UnixMilli t)"
    by (rule uint_NOT_64)
  finally show ?thesis
    by (simp add: uint_sint_mod)
qed

text \<open>The one key \<open>writeRow\<close> hands to \<open>Apply\<close>, in every world.\<close>

lemma writeRow_applied_keys:
  "applied_keys (fst (writeRow w tbl cfg d)) = [rowKey d (time_Now w)]"
  by (simp add: writeRow_def Let_def split: option.splits)

text \<open>
  Claim C8: the derivation is deterministic: calls with the same device identifier and
  the same timestamp give the same key. The key reads the device identifier and the
  millisecond value of the timestamp and nothing else: two calls that agree on these
  (as calls with identical inputs do) give the same key; and in a run the key that
  \<open>writeRow\<close> writes for a device is the same in any two worlds whose clocks agree,
  whatever their environment, configuration, table and service answers.
\<close>

theorem rowKey_reads_device_and_millis:
  "(d1 = d2 \<and> UnixMilli t1 = UnixMilli t2 \<longrightarrow> rowKey d1 t1 = rowKey d2 t2)
   \<and> (time_Now w1 = time_Now w2 \<longrightarrow>
        applied_keys (fst (writeRow w1 tbl1 cfg1 d)) = applied_keys (fst (writeRow w2 tbl2 cfg2 d)))"
  by (simp add: rowKey_def writeRow_applied_keys)

theorem rowKey_reads_device_and_millis_witness:
  "(1700000000000000000 :: Time) \<noteq> 1700000000000999999
   \<and> UnixMilli 1700000000000000000 = UnixMilli 1700000000000999999
   \<and> rowKey ''sensor-42'' 1700000000000000000 = rowKey ''sensor-42'' 1700000000000999999
   \<and> rowKey ''sensor-42'' 1700000000000000000 = ''sensor-42#18446742373709551615''
   \<and> time_Now world_ok = time_Now world_unset
   \<and> applied_keys (fst (writeRow world_ok ''readings'' \<lparr>ProjectID = ''proj'', InstanceID = ''inst'', TableID = ''readings'', ColumnFamily = ''cf''\<rparr> ''sensor-42''))
     = applied_keys (fst (writeRow world_unset '''' \<lparr>ProjectID = '''', InstanceID = '''', TableID = '''', ColumnFamily = ''''\<rparr> ''sensor-42''))"
proof -
  have a: "UnixMilli 1700000000000000000 = UnixMilli 1700000000000999999"
    by code_simp
  have b: "time_Now world_ok = time_Now world_unset"
    by code_simp
  have c: "rowKey ''sensor-42'' 1700000000000000000 = ''sensor-42#18446742373709551615''"
    by code_simp
  from rowKey_reads_device_and_millis
         [of "''sensor-42''" "''sensor-42''" 1700000000000000000 1700000000000999999
             world_ok world_unset]
       a b c
  show ?thesis
    by simp
qed

text \<open>
  Claim C9, as stated: for the device \<open>sensor-42\<close> and any two timestamps one
  millisecond apart, the keys differ and the later one sorts first. The order fails at
  the last millisecond before the epoch: its key ends in \<open>0\<close>, the key of the epoch in
  the largest value, and the earlier key sorts first.
\<close>

theorem sensor_42_adjacent_counterexample:
  "(0 :: Time) = - 1000000 + 1000000
   \<and> sint (UnixMilli (- 1000000)) = - 1
   \<and> sint (UnixMilli 0) = 0
   \<and> rowKey ''sensor-42'' (- 1000000) = ''sensor-42#0''
   \<and> rowKey ''sensor-42'' 0 = ''sensor-42#18446744073709551615''
   \<and> \<not> rowKey ''sensor-42'' 0 < rowKey ''sensor-42'' (- 1000000)"
  by code_simp

text \<open>
  Claim C9, amended: for the device \<open>sensor-42\<close> and any two timestamps exactly one
  millisecond apart, the two keys differ; and the key of the later timestamp sorts first
  whenever the earlier millisecond value is not \<open>-1\<close> and the two keys have the same
  width.
\<close>

theorem sensor_42_adjacent_millis:
  assumes "t2 = t1 + 1000000"
  shows "rowKey ''sensor-42'' t1 \<noteq> rowKey ''sensor-42'' t2
    \<and> (sint (UnixMilli t1) \<noteq> - 1
         \<and> length (rowKey ''sensor-42'' t1) = length (rowKey ''sensor-42'' t2)
       \<longrightarrow> rowKey ''sensor-42'' t2 < rowKey ''sensor-42'' t1)"
proof -
  have m2: "UnixMilli t2 = UnixMilli t1 + 1"
    by (simp add: assms UnixMilli_next)
  have "NOT (UnixMilli t1) \<noteq> NOT (UnixMilli t2)"
    by (simp add: m2)
  then have "unat (NOT (UnixMilli t1)) \<noteq> unat (NOT (UnixMilli t2))"
    by (simp add: word_unat_eq_iff)
  then have differ: "rowKey ''sensor-42'' t1 \<noteq> rowKey ''sensor-42'' t2"
    using decimal_numeral_inj by (auto simp: rowKey_numeral)
  have "rowKey ''sensor-42'' t2 < rowKey ''sensor-42'' t1"
    if ne: "sint (UnixMilli t1) \<noteq> - 1"
      and len: "length (rowKey ''sensor-42'' t1) = length (rowKey ''sensor-42'' t2)"
  proof -
    from ne have "UnixMilli t1 \<noteq> - 1"
      by auto
    then have "unat (UnixMilli t2) = unat (UnixMilli t1) + 1"
      by (simp add: m2 unat_succ)
    then have "unat (UnixMilli t1) < unat (UnixMilli t2)"
      by simp
    then show ?thesis
      using len by (rule rowKey_reversed)
  qed
  with differ show ?thesis
    by blast
qed

theorem sensor_42_adjacent_millis_witness:
  "rowKey ''sensor-42'' 1700000000000000000 \<noteq> rowKey ''sensor-42'' 1700000000001000000
   \<and> sint (UnixMilli 1700000000000000000) \<noteq> - 1
   \<and> length (rowKey ''sensor-42'' 1700000000000000000)
       = length (rowKey ''sensor-42'' 1700000000001000000)
   \<and> rowKey ''sensor-42'' 1700000000001000000 < rowKey ''sensor-42'' 1700000000000000000"
proof -
  have a: "(1700000000001000000 :: Time) = 1700000000000000000 + 1000000"
    by simp
  have b: "sint (UnixMilli 1700000000000000000) \<noteq> - 1"
    by code_simp
  have c: "length (rowKey ''sensor-42'' 1700000000000000000)
      = length (rowKey ''sensor-42'' 1700000000001000000)"
    by code_simp
  from sensor_42_adjacent_millis [OF a] b c show ?thesis
    by simp
qed

section \<open>Traces\<close>

lemma external_calls_append:
  "external_calls (xs @ ys) = external_calls xs @ external_calls ys"
  by (induction xs rule: external_calls.induct) simp_all

lemma failed_call_is_call: "failed_call e \<Longrightarrow> external_calls (e # es) \<noteq> []"
  by (cases e rule: failed_call.cases) simp_all

lemma no_calls_no_failure: "external_calls es = [] \<Longrightarrow> \<not> list_ex failed_call es"
proof (induction es)
  case Nil
  then show ?case by simp
next
  case (Cons e es)
  then show ?case
    by (cases e rule: failed_call.cases) simp_all
qed

lemma stops_at_failure_append:
  "stops_at_failure (xs @ ys) =
     (if list_ex failed_call xs then stops_at_failure xs \<and> external_calls ys = []
      else stops_at_failure ys)"
  by (induction xs) (auto simp: external_calls_append)

lemma stops_at_failure_no_calls: "external_calls es = [] \<Longrightarrow> stops_at_failure es"
proof (induction es)
  case Nil
  then show ?case by simp
next
  case (Cons e es)
  then show ?case
    by (cases e rule: failed_call.cases) simp_all
qed

text \<open>
  In a trace that stops at its first failed call, no external call follows any failed
  call.
\<close>

lemma stops_at_failure_split:
  assumes "stops_at_failure tr" and "tr = pre @ e # post" and "failed_call e"
  shows "external_calls post = []"
  using assms
proof (induction pre arbitrary: tr)
  case Nil
  then show ?case by simp
next
  case (Cons p pre)
  show ?case
  proof (cases "failed_call p")
    case True
    with Cons.prems have "external_calls (pre @ e # post) = []"
      by simp
    with failed_call_is_call [OF \<open>failed_call e\<close>, of post] show ?thesis
      by (simp add: external_calls_append)
  next
    case False
    with Cons.prems have "stops_at_failure (pre @ e # post)"
      by simp
    from Cons.IH [OF this refl \<open>failed_call e\<close>] show ?thesis .
  qed
qed

lemma failure_in_trace:
  "tr = pre @ ExternalCall c (Failed err) # post \<Longrightarrow> list_ex failed_call tr"
  by (simp add: list_ex_iff)

section \<open>The functions of the wide-column example\<close>

lemma external_calls_print_items: "external_calls (print_items items) = []"
  by (induction items) simp_all

lemma external_calls_print_families: "external_calls (print_families r) = []"
  by (induction r rule: print_families.induct)
    (simp_all add: external_calls_append external_calls_print_items)

lemma external_calls_Stdout_map: "external_calls (map (\<lambda>x. Stdout (f x)) xs) = []"
  by (induction xs) simp_all

lemma loadConfig_run:
  "stops_at_failure (fst (loadConfig w))"
  "\<not> list_ex failed_call (fst (loadConfig w))"
  by (simp_all add: loadConfig_def split: option.splits)

lemma createBigtableClient_run:
  "stops_at_failure (fst (createBigtableClient w cfg))"
  "list_ex failed_call (fst (createBigtableClient w cfg))
     \<longleftrightarrow> snd (createBigtableClient w cfg) = Exit 1"
  "snd (createBigtableClient w cfg) = Exit c \<Longrightarrow> c = 1"
  by (simp_all add: createBigtableClient_def split: option.splits)

lemma writeRow_run:
  "stops_at_failure (fst (writeRow w tbl cfg d))"
  "list_ex failed_call (fst (writeRow w tbl cfg d)) \<longleftrightarrow> snd (writeRow w tbl cfg d) = Exit 1"
  "snd (writeRow w tbl cfg d) = Exit c \<Longrightarrow> c = 1"
  by (simp_all add: writeRow_def Let_def split: option.splits)

lemma readRow_run:
  "stops_at_failure (fst (readRow w tbl key))"
  "list_ex failed_call (fst (readRow w tbl key)) \<longleftrightarrow> snd (readRow w tbl key) = Exit 1"
  "snd (readRow w tbl key) = Exit c \<Longrightarrow> c = 1"
  by (simp_all add: readRow_def stops_at_failure_no_calls external_calls_print_families
      no_calls_no_failure split: sum.splits)

lemma scanRows_run:
  "stops_at_failure (fst (scanRows w tbl prefix))"
  "list_ex failed_call (fst (scanRows w tbl prefix)) \<longleftrightarrow> snd (scanRows w tbl prefix) = Exit 1"
  "snd (scanRows w tbl prefix) = Exit c \<Longrightarrow> c = 1"
  by (simp_all add: scanRows_def Let_def stops_at_failure_no_calls external_calls_append
      external_calls_Stdout_map no_calls_no_failure split: option.splits prod.splits)

lemmas bigtable_runs =
  loadConfig_run createBigtableClient_run(1,2) writeRow_run(1,2) readRow_run(1,2)
  scanRows_run(1,2)

lemma main_bigtable_stops: "stops_at_failure (fst (main_bigtable w))"
  by (simp add: main_bigtable_def Let_def case_prod_beta stops_at_failure_append
      external_calls_append bigtable_runs split: outcome.splits)

lemma main_bigtable_failure_fatal:
  "list_ex failed_call (fst (main_bigtable w)) \<longrightarrow> snd (main_bigtable w) = 1"
  by (auto simp: main_bigtable_def Let_def case_prod_beta bigtable_runs
      split: outcome.splits)

section \<open>The functions of the warehouse example\<close>

lemma append_savers_eq:
  "append_savers rows savers = savers @ map (\<lambda>r. \<lparr>Struct = r, InsertID = EventID r\<rparr>) rows"
  by (induction rows arbitrary: savers) simp_all

lemma iterate_stops: "stops_at_failure (fst (iterate w rows fin))"
  by (induction w rows fin rule: iterate.induct) (simp_all add: case_prod_beta)

lemma iterate_failure:
  "list_ex failed_call (fst (iterate w rows fin)) \<longleftrightarrow> snd (iterate w rows fin) \<noteq> None"
  by (induction w rows fin rule: iterate.induct) (simp_all add: case_prod_beta)

lemma iterate_calls:
  "external_calls (fst (iterate w rows fin)) = replicate (Suc (length rows)) IteratorNext"
  by (induction w rows fin rule: iterate.induct) (simp_all add: case_prod_beta)

lemma iterate_result_lines:
  "length (filter result_line (fst (iterate w rows fin))) = length rows"
  by (induction w rows fin rule: iterate.induct)
    (simp_all add: case_prod_beta row_line_def Let_def)

lemma row_line_godotenv_Load:
  "row_line (w\<lparr>godotenv_Load := x\<rparr>) row = row_line w row"
  by (cases "Valid (Temperature row)") (simp_all add: row_line_def)

lemma iterate_godotenv_Load:
  "iterate (w\<lparr>godotenv_Load := x\<rparr>) rows fin = iterate w rows fin"
  by (induction w rows fin rule: iterate.induct) (simp_all add: row_line_godotenv_Load)

lemma insertEvents_run:
  "stops_at_failure (fst (insertEvents w d t rows))"
  "list_ex failed_call (fst (insertEvents w d t rows)) \<longleftrightarrow> snd (insertEvents w d t rows) \<noteq> None"
  "filter result_line (fst (insertEvents w d t rows)) = []"
  "QueryRead q \<notin> set (external_calls (fst (insertEvents w d t rows)))"
  "insertEvents (w\<lparr>godotenv_Load := x\<rparr>) d t rows = insertEvents w d t rows"
  by (simp_all add: insertEvents_def Let_def split: option.splits)

lemma insert_sample_run:
  "stops_at_failure (fst (insert_sample w d t))"
  "list_ex failed_call (fst (insert_sample w d t)) \<longleftrightarrow> snd (insert_sample w d t) = Exit 1"
  "snd (insert_sample w d t) = Exit c \<longrightarrow> c = 1"
  "filter result_line (fst (insert_sample w d t)) = []"
  "QueryRead q \<notin> set (external_calls (fst (insert_sample w d t)))"
  "insert_sample (w\<lparr>godotenv_Load := x\<rparr>) d t = insert_sample w d t"
  by (auto simp: insert_sample_def Let_def case_prod_beta insertEvents_run
      stops_at_failure_append external_calls_append split: option.splits)

lemma queryEventsTable_run:
  "stops_at_failure (fst (queryEventsTable w n p d t))"
  "list_ex failed_call (fst (queryEventsTable w n p d t))
     \<longleftrightarrow> snd (queryEventsTable w n p d t) \<noteq> None"
  "length (filter result_line (fst (queryEventsTable w n p d t)))
     \<le> rows_yielded w (queryStr p d t)"
  "QueryRead q \<in> set (external_calls (fst (queryEventsTable w n p d t)))
     \<longrightarrow> q = queryStr p d t"
  "queryEventsTable (w\<lparr>godotenv_Load := x\<rparr>) n p d t = queryEventsTable w n p d t"
  by (simp_all add: queryEventsTable_def Let_def case_prod_beta rows_yielded_def
      stops_at_failure_append external_calls_append iterate_stops iterate_failure
      iterate_calls iterate_result_lines iterate_godotenv_Load
      split: option.splits sum.splits prod.splits)





lemma load_dotenv_or_warn_run:
  "external_calls (load_dotenv_or_warn w) = []"
  "\<not> list_ex failed_call (load_dotenv_or_warn w)"
  "filter result_line (load_dotenv_or_warn w) = []"
  by (simp_all add: load_dotenv_or_warn_def split: option.splits)

lemmas bigquery_runs =
  load_dotenv_or_warn_run insert_sample_run(1,2,4,5) queryEventsTable_run(1,2)

section \<open>The runs of the warehouse example\<close>

lemma main_bigquery_stops: "stops_at_failure (fst (main_bigquery w))"
  by (simp add: main_bigquery_def Let_def case_prod_beta stops_at_failure_append
      external_calls_append bigquery_runs split: outcome.splits option.splits)

lemma main_bigquery_failure_fatal:
  "list_ex failed_call (fst (main_bigquery w)) \<longrightarrow> snd (main_bigquery w) = 1"
  by (auto simp: main_bigquery_def Let_def case_prod_beta bigquery_runs
      dest: insert_sample_run(3) [rule_format] split: outcome.splits option.splits)





section \<open>Configuration and failures\<close>

text \<open>
  Claim C4, as stated: in both programs a missing required configuration value ends the
  program before any external call. The wide-column example reads its four values and
  checks none: with the file loaded and no variable set it builds the client with empty
  identifiers and goes on to write, read and scan.
\<close>

theorem missing_config_counterexample:
  "godotenv_Load world_unset = None
   \<and> os_Getenv world_unset ''PROJECT_ID'' = ''''
   \<and> os_Getenv world_unset ''INSTANCE_ID'' = ''''
   \<and> os_Getenv world_unset ''TABLE_ID'' = ''''
   \<and> os_Getenv world_unset ''COLUMN_FAMILY'' = ''''
   \<and> external_calls (fst (main_bigtable world_unset))
       = [BigtableNewClient '''' '''',
          TableApply '''' ''sensor-42#18446742373709551615''
            [\<lparr>SetFamily = '''', SetColumn = ''temp_c'',
               SetTimestamp = 1700000000000000, SetValue = ''27.4''\<rparr>,
             \<lparr>SetFamily = '''', SetColumn = ''hum_pct'',
               SetTimestamp = 1700000000000000, SetValue = ''61''\<rparr>],
          TableReadRow '''' ''sensor-42#18446742373709551615'',
          TableReadRows '''' ''sensor-42#'' 1]
   \<and> snd (main_bigtable world_unset) = 0"
  by code_simp

text \<open>
  Claim C4, amended: in the warehouse example, whenever one of \<open>PROJECT_ID\<close>,
  \<open>BIG_QUERY_DATASET_ID\<close> and \<open>BIG_QUERY_TABLE_ID\<close> is missing, the program ends with
  status 1 before attempting any external call; in the wide-column example the program
  ends with status 1 before any external call whenever its configuration file cannot
  be loaded.
\<close>

theorem missing_config_is_fatal:
  "(os_Getenv w ''PROJECT_ID'' = '''' \<or> os_Getenv w ''BIG_QUERY_DATASET_ID'' = ''''
      \<or> os_Getenv w ''BIG_QUERY_TABLE_ID'' = ''''
      \<longrightarrow> snd (main_bigquery w) = 1 \<and> external_calls (fst (main_bigquery w)) = [])
   \<and> (godotenv_Load w \<noteq> None
      \<longrightarrow> snd (main_bigtable w) = 1 \<and> external_calls (fst (main_bigtable w)) = [])"
  by (auto simp: main_bigquery_def main_bigtable_def loadConfig_def Let_def
      external_calls_append load_dotenv_or_warn_run split: option.splits)

theorem missing_config_is_fatal_witness:
  "os_Getenv world_no_file_unset ''PROJECT_ID'' = ''''
   \<and> snd (main_bigquery world_no_file_unset) = 1
   \<and> external_calls (fst (main_bigquery world_no_file_unset)) = []
   \<and> godotenv_Load world_no_file_unset \<noteq> None
   \<and> snd (main_bigtable world_no_file_unset) = 1
   \<and> external_calls (fst (main_bigtable world_no_file_unset)) = []"
proof -
  have a: "os_Getenv world_no_file_unset ''PROJECT_ID'' = ''''"
    by code_simp
  have b: "godotenv_Load world_no_file_unset \<noteq> None"
    by code_simp
  from missing_config_is_fatal [of world_no_file_unset] a b show ?thesis
    by simp
qed

text \<open>
  Claim C5: in either program's run, if an external call fails, the program ends with a
  non-zero status and no external call follows the failed one. Whatever splits the
  trace at a failed call, the status is 1 and the rest of the trace holds no call. (The
  deferred \<open>Close\<close> of \<open>queryEventsTable\<close> still runs when the query fails; it releases
  the client and is not one of the operations.)
\<close>

theorem external_failure_is_fatal:
  "(fst (main_bigquery w) = pre @ ExternalCall c (Failed err) # post
      \<longrightarrow> snd (main_bigquery w) = 1 \<and> external_calls post = [])
   \<and> (fst (main_bigtable w) = pre' @ ExternalCall c' (Failed err') # post'
      \<longrightarrow> snd (main_bigtable w) = 1 \<and> external_calls post' = [])"
proof (intro conjI impI)
  assume tr: "fst (main_bigquery w) = pre @ ExternalCall c (Failed err) # post"
  then show "snd (main_bigquery w) = 1"
    using main_bigquery_failure_fatal [of w] failure_in_trace by blast
  from main_bigquery_stops tr show "external_calls post = []"
    by (rule stops_at_failure_split) simp
next
  assume tr: "fst (main_bigtable w) = pre' @ ExternalCall c' (Failed err') # post'"
  then show "snd (main_bigtable w) = 1"
    using main_bigtable_failure_fatal [of w] failure_in_trace by blast
  from main_bigtable_stops tr show "external_calls post' = []"
    by (rule stops_at_failure_split) simp
qed

theorem external_failure_is_fatal_witness:
  "fst (main_bigquery world_writes_fail) =
     [LoadDotenv None, ExternalCall (BigqueryNewClient ''proj'') Ok,
      Stdout ''Streaming rows into BigQuery...\<newline>'']
     @ ExternalCall
         (InserterPut ''iot'' ''events''
            [\<lparr>Struct = sample_row ''evt-1700000000000000000'',
               InsertID = ''evt-1700000000000000000''\<rparr>])
         (Failed ''quota exceeded'')
     # [Logged ''insertEvents failed: inserter.Put: quota exceeded'']
   \<and> snd (main_bigquery world_writes_fail) = 1
   \<and> external_calls [Logged ''insertEvents failed: inserter.Put: quota exceeded''] = []
   \<and> fst (main_bigtable world_writes_fail) =
     [LoadDotenv None, ExternalCall (BigtableNewClient ''proj'' ''inst'') Ok]
     @ ExternalCall
         (TableApply ''readings'' ''sensor-42#18446742373709551615''
            [\<lparr>SetFamily = ''cf'', SetColumn = ''temp_c'',
               SetTimestamp = 1700000000000000, SetValue = ''27.4''\<rparr>,
             \<lparr>SetFamily = ''cf'', SetColumn = ''hum_pct'',
               SetTimestamp = 1700000000000000, SetValue = ''61''\<rparr>])
         (Failed ''deadline exceeded'')
     # [Logged ''Failed to write row: deadline exceeded'']
   \<and> snd (main_bigtable world_writes_fail) = 1
   \<and> external_calls [Logged ''Failed to write row: deadline exceeded''] = []"
proof -
  have a: "fst (main_bigquery world_writes_fail) =
     [LoadDotenv None, ExternalCall (BigqueryNewClient ''proj'') Ok,
      Stdout ''Streaming rows into BigQuery...\<newline>'']
     @ ExternalCall
         (InserterPut ''iot'' ''events''
            [\<lparr>Struct = sample_row ''evt-1700000000000000000'',
               InsertID = ''evt-1700000000000000000''\<rparr>])
         (Failed ''quota exceeded'')
     # [Logged ''insertEvents failed: inserter.Put: quota exceeded'']"
    by code_simp
  have b: "fst (main_bigtable world_writes_fail) =
     [LoadDotenv None, ExternalCall (BigtableNewClient ''proj'' ''inst'') Ok]
     @ ExternalCall
         (TableApply ''readings'' ''sensor-42#18446742373709551615''
            [\<lparr>SetFamily = ''cf'', SetColumn = ''temp_c'',
               SetTimestamp = 1700000000000000, SetValue = ''27.4''\<rparr>,
             \<lparr>SetFamily = ''cf'', SetColumn = ''hum_pct'',
               SetTimestamp = 1700000000000000, SetValue = ''61''\<rparr>])
         (Failed ''deadline exceeded'')
     # [Logged ''Failed to write row: deadline exceeded'']"
    by code_simp
  from external_failure_is_fatal [THEN conjunct1, THEN mp, OF a]
    external_failure_is_fatal [THEN conjunct2, THEN mp, OF b] a b
  show ?thesis
    by blast
qed

text \<open>
  Claim C6: for every list of rows passed to \<open>insertEvents\<close>, the one call of the
  inserter's \<open>Put\<close> is handed, row by row and in order, a saver that holds the row and
  whose \<open>InsertID\<close> is that row's \<open>EventID\<close>.
\<close>

theorem insertEvents_InsertID:
  "\<exists>reply. fst (insertEvents w datasetID tableID rows) =
     [Stdout ''Streaming rows into BigQuery...\<newline>'',
      ExternalCall
        (InserterPut datasetID tableID
           (map (\<lambda>r. \<lparr>Struct = r, InsertID = EventID r\<rparr>) rows)) reply]"
  by (simp add: insertEvents_def Let_def append_savers_eq split: option.splits)

text \<open>
  Claim C7: when the configuration file cannot be loaded, the warehouse example logs a
  warning and continues (the rest of its run and its status are those of a run whose
  file loaded), whereas the wide-column example logs the error and ends with status 1.
\<close>

theorem missing_file_warning_or_fatal:
  assumes "godotenv_Load w = Some err"
  shows "(\<exists>rest. fst (main_bigquery w)
              = LoadDotenv (Some err) # Logged ''Warning: Could not load .env file.'' # rest
            \<and> main_bigquery (w\<lparr>godotenv_Load := None\<rparr>)
              = (LoadDotenv None # rest, snd (main_bigquery w)))
         \<and> main_bigtable w
              = ([LoadDotenv (Some err), Logged (''Error loading .env file: '' @ err)], 1)"
  using assms
  by (simp add: main_bigquery_def main_bigtable_def loadConfig_def load_dotenv_or_warn_def
      Let_def case_prod_beta insert_sample_run(6) queryEventsTable_run(5)
      split: option.splits outcome.splits)

theorem missing_file_warning_or_fatal_witness:
  "godotenv_Load world_no_file = Some ''open .env: no such file or directory''
   \<and> (\<exists>rest. fst (main_bigquery world_no_file)
          = LoadDotenv (Some ''open .env: no such file or directory'')
            # Logged ''Warning: Could not load .env file.'' # rest
        \<and> main_bigquery (world_no_file\<lparr>godotenv_Load := None\<rparr>)
          = (LoadDotenv None # rest, snd (main_bigquery world_no_file)))
   \<and> snd (main_bigquery world_no_file) = 0
   \<and> main_bigtable world_no_file
       = ([LoadDotenv (Some ''open .env: no such file or directory''),
           Logged ''Error loading .env file: open .env: no such file or directory''], 1)"
proof -
  have a: "godotenv_Load world_no_file = Some ''open .env: no such file or directory''"
    by code_simp
  have b: "snd (main_bigquery world_no_file) = 0"
    by code_simp
  from missing_file_warning_or_fatal [OF a] a b show ?thesis
    by simp
qed




end
